theory Spec2Isabelle
  imports Main "HOL-Library.Sublist"
begin

section \<open>JavaScript values, errors and string helpers\<close>

text \<open>
  Exceptions of the program are values: every \<open>throw\<close> of \<^verbatim>\<open>src/sources.js\<close> is an
  \<open>Inl\<close> of the result type \<open>js_error + 'a\<close>. \<open>Error m\<close> is \<^verbatim>\<open>new Error(m)\<close>,
  \<open>TypeError m\<close> is the exception the engine raises when a property of \<^verbatim>\<open>undefined\<close>
  is read or a non-function is called, \<open>RangeError m\<close> the one it raises when the call
  stack is exhausted, \<open>NotFound\<close> is \<^verbatim>\<open>http-errors\<close>' 404 and
  \<open>NoResourcePathError\<close> the exception of \<^verbatim>\<open>./exceptions\<close>.
\<close>

datatype js_error =
    Error string
  | TypeError string
  | RangeError string
  | NotFound
  | NoResourcePathError

fun message :: "js_error \<Rightarrow> string" where
  "message (Error m) = m"
| "message (TypeError m) = m"
| "message (RangeError m) = m"
| "message NotFound = ''Not Found''"
| "message NoResourcePathError = ''''"

text \<open>
  The values a YAML front matter field or a field of an info record can hold.
  \<open>JUndefined\<close> is a missing property.
\<close>

datatype jsval =
    JUndefined
  | JNull
  | JBool bool
  | JNum int
  | JStr string
  | JArr "jsval list"
  | JObj "(string \<times> jsval) list"

text \<open>JavaScript truthiness, as \<^verbatim>\<open>!!v\<close> and \<^verbatim>\<open>if (v)\<close> compute it.\<close>

fun truthy :: "jsval \<Rightarrow> bool" where
  "truthy JUndefined = False"
| "truthy JNull = False"
| "truthy (JBool b) = b"
| "truthy (JNum n) = (n \<noteq> 0)"
| "truthy (JStr s) = (s \<noteq> [])"
| "truthy (JArr xs) = True"
| "truthy (JObj kvs) = True"

text \<open>\<^verbatim>\<open>Array.prototype.join\<close> on an array of strings.\<close>

fun js_join :: "string \<Rightarrow> string list \<Rightarrow> string" where
  "js_join sep [] = []"
| "js_join sep [x] = x"
| "js_join sep (x # y # ys) = x @ sep @ js_join sep (y # ys)"

text \<open>\<^verbatim>\<open>String.prototype.split\<close> with a one-character separator.\<close>

fun js_split :: "char \<Rightarrow> string \<Rightarrow> string list" where
  "js_split c [] = [[]]"
| "js_split c (x # xs) =
     (if x = c then [] # js_split c xs
      else (case js_split c xs of
              [] \<Rightarrow> [[x]]
            | p # ps \<Rightarrow> (x # p) # ps))"

definition startsWith :: "string \<Rightarrow> string \<Rightarrow> bool" where
  "startsWith s p = (take (length p) s = p)"

definition endsWith :: "string \<Rightarrow> string \<Rightarrow> bool" where
  "endsWith s p = (length p \<le> length s \<and> drop (length s - length p) s = p)"

text \<open>\<^verbatim>\<open>String.prototype.includes\<close>: the argument occurs as a substring.\<close>

fun str_includes :: "string \<Rightarrow> string \<Rightarrow> bool" where
  "str_includes [] p = (p = [])"
| "str_includes (x # xs) p = (startsWith (x # xs) p \<or> str_includes xs p)"

text \<open>
  \<^verbatim>\<open>s.replace(p, "")\<close> with a string pattern: the first occurrence of \<open>p\<close> is removed.
\<close>

fun remove_first :: "string \<Rightarrow> string \<Rightarrow> string" where
  "remove_first p [] = []"
| "remove_first p (x # xs) =
     (if startsWith (x # xs) p then drop (length p) (x # xs)
      else x # remove_first p xs)"

text \<open>\<^verbatim>\<open>s.replace(/[.]md$/, "")\<close>, \<^verbatim>\<open>s.replace(/\.json$/, "")\<close>: a suffix is removed when present.\<close>

definition strip_suffix :: "string \<Rightarrow> string \<Rightarrow> string" where
  "strip_suffix suf s = (if endsWith s suf then take (length s - length suf) s else s)"

text \<open>\<^verbatim>\<open>s.replace(/^_/, "")\<close>.\<close>

fun strip_leading_underscore :: "string \<Rightarrow> string" where
  "strip_leading_underscore [] = []"
| "strip_leading_underscore (x # xs) = (if x = CHR ''_'' then xs else x # xs)"

text \<open>\<^verbatim>\<open>s.replace(/\r\n/g, "\n")\<close>.\<close>

fun crlf_to_lf :: "string \<Rightarrow> string" where
  "crlf_to_lf (a # b # xs) =
     (if a = CHR 0x0D \<and> b = CHR 0x0A then CHR 0x0A # crlf_to_lf xs
      else a # crlf_to_lf (b # xs))"
| "crlf_to_lf xs = xs"

section \<open>Sources\<close>

text \<open>
  The concrete classes of the registry \<^verbatim>\<open>sources\<close>. The group classes differ only in
  \<^verbatim>\<open>_name\<close> and, for some, \<^verbatim>\<open>bucket\<close>; they are the constructors of two enumerations.
  A community source carries the fields its constructor sets; \<open>defaultBranch\<close> is the
  settled value of the memoised lookup (\<^verbatim>\<open>"master"\<close> when the lookup failed).
\<close>

datatype public_group =
    BlabSource | SeattleFluSource | NextspainSource | SwissSource | COGUKSource
  | NGSSASource | ECDCSource | IllinoisGagnonPublicSource | NeherLabSource
  | SpheresSource | NIPHSource | EPICOVIGALSource | WAPHLSource | ViennaRNASource
  | SC2ZamPubSource | NebraskaDHHSSource | NcovHKSource

datatype private_group =
    BlabPrivateSource | NzCovid19PrivateSource | AllWalesPrivateSource
  | IllinoisGagnonPrivateSource | GrubaughLabPrivateSource | InrbDrcSource
  | ILRIPrivateSource | PIGIEPrivateSource | SC2ZamPrivateSource
  | WallauLabPrivateSource | NextfluPrivateSource | DatabiomicsPrivateSource

record community =
  owner :: string
  repoName :: string
  branch :: string
  branchExplicitlyDefined :: bool
  defaultBranch :: string

datatype source =
    CoreSource
  | CoreStagingSource
  | CommunitySource community
  | UrlDefinedSource string
  | PublicGroupSource public_group
  | PrivateGroupSource private_group

fun public_name :: "public_group \<Rightarrow> string" where
  "public_name BlabSource = ''blab''"
| "public_name SeattleFluSource = ''seattleflu''"
| "public_name NextspainSource = ''nextspain''"
| "public_name SwissSource = ''swiss''"
| "public_name COGUKSource = ''cog-uk''"
| "public_name NGSSASource = ''ngs-sa''"
| "public_name ECDCSource = ''ecdc''"
| "public_name IllinoisGagnonPublicSource = ''illinois-gagnon-public''"
| "public_name NeherLabSource = ''neherlab''"
| "public_name SpheresSource = ''spheres''"
| "public_name NIPHSource = ''niph''"
| "public_name EPICOVIGALSource = ''epicovigal''"
| "public_name WAPHLSource = ''waphl''"
| "public_name ViennaRNASource = ''ViennaRNA''"
| "public_name SC2ZamPubSource = ''SC2ZamPub''"
| "public_name NebraskaDHHSSource = ''nebraska-dhhs''"
| "public_name NcovHKSource = ''ncovHK''"

fun private_name :: "private_group \<Rightarrow> string" where
  "private_name BlabPrivateSource = ''blab-private''"
| "private_name NzCovid19PrivateSource = ''nz-covid19-private''"
| "private_name AllWalesPrivateSource = ''allwales-private''"
| "private_name IllinoisGagnonPrivateSource = ''illinois-gagnon-private''"
| "private_name GrubaughLabPrivateSource = ''grubaughlab''"
| "private_name InrbDrcSource = ''inrb-drc''"
| "private_name ILRIPrivateSource = ''ilri''"
| "private_name PIGIEPrivateSource = ''pigie''"
| "private_name SC2ZamPrivateSource = ''SC2Zam''"
| "private_name WallauLabPrivateSource = ''wallaulab''"
| "private_name NextfluPrivateSource = ''nextflu-private''"
| "private_name DatabiomicsPrivateSource = ''databiomics''"

text \<open>\<^verbatim>\<open>get name()\<close>: the static \<^verbatim>\<open>_name\<close> of the instance's class.\<close>

fun name :: "source \<Rightarrow> string" where
  "name CoreSource = ''core''"
| "name CoreStagingSource = ''staging''"
| "name (CommunitySource c) = ''community''"
| "name (UrlDefinedSource a) = ''fetch''"
| "name (PublicGroupSource g) = public_name g"
| "name (PrivateGroupSource g) = private_name g"

text \<open>\<^verbatim>\<open>get bucket()\<close> of the S3 sources, with the four overrides.\<close>

fun bucket :: "source \<Rightarrow> string" where
  "bucket (PrivateGroupSource InrbDrcSource) = ''nextstrain-inrb''"
| "bucket (PrivateGroupSource SC2ZamPrivateSource) = ''nextstrain-sc2zam''"
| "bucket (PublicGroupSource ViennaRNASource) = ''nextstrain-viennarna''"
| "bucket (PublicGroupSource SC2ZamPubSource) = ''nextstrain-sc2zampub''"
| "bucket (PublicGroupSource NcovHKSource) = ''nextstrain-ncovhk''"
| "bucket s = ''nextstrain-'' @ name s"

text \<open>
  The constructor of \<^verbatim>\<open>CommunitySource\<close>. \<open>lookup\<close> is the settled result of the
  default-branch request. \<^verbatim>\<open>repoName.split(/@/, 2)\<close> keeps the first two pieces.
\<close>

definition new_CommunitySource :: "string \<Rightarrow> string \<Rightarrow> string \<Rightarrow> js_error + source" where
  "new_CommunitySource own rn lookup =
     (if own = [] then Inl (Error ''Cannot construct a CommunitySource without an owner'')
      else if rn = [] then Inl (Error ''Cannot construct a CommunitySource without a repoName'')
      else
        (let parts = take 2 (js_split CHR ''@'' rn);
             r = hd parts;
             b = (if length parts < 2 then [] else parts ! 1)
         in if r = []
            then Inl (Error ''Cannot construct a CommunitySource without a repoName after splitting on /@/'')
            else Inr (CommunitySource
                   \<lparr>owner = own, repoName = r,
                    branch = (if b = [] then lookup else b),
                    branchExplicitlyDefined = (b \<noteq> []),
                    defaultBranch = lookup\<rparr>)))"

subsection \<open>Access control\<close>

text \<open>
  An access principal is optional (\<open>None\<close> is \<^verbatim>\<open>undefined\<close>) and its \<^verbatim>\<open>groups\<close>
  property is optional too.
\<close>

record principal =
  groups :: "string list option"

text \<open>
  \<^verbatim>\<open>static visibleToUser(user)\<close> of \<^verbatim>\<open>PrivateGroupSource\<close>:
  \<^verbatim>\<open>!!user && !!user.groups && user.groups.includes(this._name)\<close>.
  An array is truthy even when empty.
\<close>

definition PrivateGroupSource_visibleToUser :: "private_group \<Rightarrow> principal option \<Rightarrow> bool" where
  "PrivateGroupSource_visibleToUser g user =
     (case user of
        None \<Rightarrow> False
      | Some u \<Rightarrow>
          (case groups u of
             None \<Rightarrow> False
           | Some gs \<Rightarrow> private_name g \<in> set gs))"

text \<open>
  The instance method \<^verbatim>\<open>visibleToUser\<close> delegates to the static method of the
  instance's class; every class but the private groups inherits \<^verbatim>\<open>return true\<close>.
\<close>

fun visibleToUser :: "source \<Rightarrow> principal option \<Rightarrow> bool" where
  "visibleToUser (PrivateGroupSource g) user = PrivateGroupSource_visibleToUser g user"
| "visibleToUser s user = True"

section \<open>Resources\<close>

datatype resource_class =
    Dataset | Narrative
  | CommunityDataset | CommunityNarrative
  | UrlDefinedDataset | UrlDefinedNarrative

record resource =
  cls :: resource_class
  source :: source
  pathParts :: "string list"

text \<open>
  \<^verbatim>\<open>this.source.repoName\<close>: only a community source has the property; on any other
  source the template literal prints \<^verbatim>\<open>undefined\<close>.
\<close>

fun source_repoName :: "source \<Rightarrow> string" where
  "source_repoName (CommunitySource c) = repoName c"
| "source_repoName s = ''undefined''"

text \<open>\<^verbatim>\<open>get baseParts()\<close>, with the overrides of the two community classes.\<close>

fun baseParts_of :: "resource_class \<Rightarrow> source \<Rightarrow> string list \<Rightarrow> string list" where
  "baseParts_of CommunityDataset s pp = (''auspice/'' @ source_repoName s) # pp"
| "baseParts_of CommunityNarrative s pp = (''narratives/'' @ source_repoName s) # pp"
| "baseParts_of c s pp = pp"

definition baseParts :: "resource \<Rightarrow> string list" where
  "baseParts r = baseParts_of (cls r) (source r) (pathParts r)"

text \<open>
  The constructor of \<^verbatim>\<open>Resource\<close>, inherited by every resource class:
  \<^verbatim>\<open>if (!this.baseParts.length) throw new NoResourcePathError()\<close>.
\<close>

definition new_Resource :: "resource_class \<Rightarrow> source \<Rightarrow> string list \<Rightarrow> js_error + resource" where
  "new_Resource c s pp =
     (if length (baseParts_of c s pp) = 0 then Inl NoResourcePathError
      else Inr \<lparr>cls = c, source = s, pathParts = pp\<rparr>)"

text \<open>The factories \<^verbatim>\<open>source.dataset(pathParts)\<close> and \<^verbatim>\<open>source.narrative(pathParts)\<close>.\<close>

fun dataset :: "source \<Rightarrow> string list \<Rightarrow> js_error + resource" where
  "dataset (CommunitySource c) pp = new_Resource CommunityDataset (CommunitySource c) pp"
| "dataset (UrlDefinedSource a) pp = new_Resource UrlDefinedDataset (UrlDefinedSource a) pp"
| "dataset s pp = new_Resource Dataset s pp"

fun narrative :: "source \<Rightarrow> string list \<Rightarrow> js_error + resource" where
  "narrative (CommunitySource c) pp = new_Resource CommunityNarrative (CommunitySource c) pp"
| "narrative (UrlDefinedSource a) pp = new_Resource UrlDefinedNarrative (UrlDefinedSource a) pp"
| "narrative s pp = new_Resource Narrative s pp"

text \<open>
  \<^verbatim>\<open>get baseName()\<close>: underscore-joined, slash-joined for the URL-defined classes.
\<close>

definition baseName :: "resource \<Rightarrow> string" where
  "baseName r =
     (if cls r = UrlDefinedDataset \<or> cls r = UrlDefinedNarrative
      then js_join ''/'' (baseParts r)
      else js_join ''_'' (baseParts r))"

subsection \<open>Subresources\<close>

record subresource =
  resource :: resource
  type :: string

text \<open>\<^verbatim>\<open>static validTypes\<close> of the subresource class a resource class constructs.\<close>

fun validTypes :: "resource_class \<Rightarrow> string list" where
  "validTypes Narrative = [''md'']"
| "validTypes CommunityNarrative = [''md'']"
| "validTypes UrlDefinedNarrative = [''md'']"
| "validTypes c = [''main'', ''root-sequence'', ''tip-frequencies'', ''meta'', ''tree'']"

text \<open>
  \<^verbatim>\<open>resource.subresource(type)\<close>: the constructor of \<^verbatim>\<open>Subresource\<close> rejects a type
  that is not among the valid ones.
\<close>

definition new_subresource :: "resource \<Rightarrow> string \<Rightarrow> js_error + subresource" where
  "new_subresource r t =
     (if t \<notin> set (validTypes (cls r)) then Inl (Error (''invalid Subresource type: '' @ t))
      else Inr \<lparr>resource = r, type = t\<rparr>)"

text \<open>
  \<^verbatim>\<open>get baseName()\<close> of \<^verbatim>\<open>DatasetSubresource\<close>, \<^verbatim>\<open>NarrativeSubresource\<close>,
  \<^verbatim>\<open>UrlDefinedDatasetSubresource\<close> and \<^verbatim>\<open>UrlDefinedNarrativeSubresource\<close>.
\<close>

definition subresource_baseName :: "subresource \<Rightarrow> string" where
  "subresource_baseName s =
     (let r = resource s; t = type s; bn = baseName r in
      case cls r of
        UrlDefinedDataset \<Rightarrow>
          (if t = ''main'' then bn
           else if endsWith bn ''.json''
                then strip_suffix ''.json'' bn @ ''_'' @ t @ ''.json''
                else bn @ ''_'' @ t)
      | UrlDefinedNarrative \<Rightarrow> bn
      | Narrative \<Rightarrow> bn @ ''.md''
      | CommunityNarrative \<Rightarrow> bn @ ''.md''
      | _ \<Rightarrow> (if t = ''main'' then bn @ ''.json'' else bn @ ''_'' @ t @ ''.json''))"

subsection \<open>Existence checks\<close>

text \<open>
  The network is a parameter. \<open>head s key\<close> is the outcome of
  \<^verbatim>\<open>fetch(await source.urlFor(key, "HEAD"), {method: "HEAD", cache: "no-store"})\<close>
  for the source \<open>s\<close>: the status of the response, or the exception with which the
  request rejects.
\<close>

type_synonym head_fetch = "source \<Rightarrow> string \<Rightarrow> js_error + nat"

text \<open>The local helper \<^verbatim>\<open>_exists(type)\<close> of \<^verbatim>\<open>Dataset.exists\<close> and \<^verbatim>\<open>Narrative.exists\<close>.\<close>

definition exists_type :: "head_fetch \<Rightarrow> resource \<Rightarrow> string \<Rightarrow> js_error + bool" where
  "exists_type head r t =
     (case new_subresource r t of
        Inl e \<Rightarrow> Inl e
      | Inr s \<Rightarrow>
          (case head (source r) (subresource_baseName s) of
             Inl e \<Rightarrow> Inl e
           | Inr status \<Rightarrow> Inr (status = 200)))"

text \<open>
  \<^verbatim>\<open>Dataset.exists\<close>:
  \<^verbatim>\<open>(await _exists("main")) || (await all(_exists("meta"), _exists("tree"))) || false\<close>.
  The two fallback requests run concurrently and \<^verbatim>\<open>Promise.all\<close> rejects when one of
  them rejects (the model reports the error of "meta" when both reject).
\<close>

definition Dataset_exists :: "head_fetch \<Rightarrow> resource \<Rightarrow> js_error + bool" where
  "Dataset_exists head r =
     (case exists_type head r ''main'' of
        Inl e \<Rightarrow> Inl e
      | Inr main \<Rightarrow>
          if main then Inr True
          else (case exists_type head r ''meta'' of
                  Inl e \<Rightarrow> Inl e
                | Inr meta \<Rightarrow>
                    (case exists_type head r ''tree'' of
                       Inl e \<Rightarrow> Inl e
                     | Inr tree \<Rightarrow> Inr (list_all (\<lambda>x. x) [meta, tree] \<or> False))))"

text \<open>\<^verbatim>\<open>Narrative.exists\<close>: \<^verbatim>\<open>(await _exists()) || false\<close>.\<close>

definition Narrative_exists :: "head_fetch \<Rightarrow> resource \<Rightarrow> js_error + bool" where
  "Narrative_exists head r =
     (case exists_type head r ''md'' of
        Inl e \<Rightarrow> Inl e
      | Inr md \<Rightarrow> Inr (md \<or> False))"

text \<open>
  \<^verbatim>\<open>resource.exists()\<close> as \<^verbatim>\<open>src/sources.js\<close> dispatches it: the community and the
  URL-defined classes of that file declare no \<^verbatim>\<open>exists\<close> and inherit the method of
  \<^verbatim>\<open>Dataset\<close> or of \<^verbatim>\<open>Narrative\<close>.
\<close>

fun Resource_exists :: "head_fetch \<Rightarrow> resource_class \<Rightarrow> resource \<Rightarrow> js_error + bool" where
  "Resource_exists head Narrative r = Narrative_exists head r"
| "Resource_exists head CommunityNarrative r = Narrative_exists head r"
| "Resource_exists head UrlDefinedNarrative r = Narrative_exists head r"
| "Resource_exists head c r = Dataset_exists head r"

definition sources_js_exists :: "head_fetch \<Rightarrow> resource \<Rightarrow> js_error + bool" where
  "sources_js_exists head r = Resource_exists head (cls r) r"

text \<open>
  \<^verbatim>\<open>src/sources/fetch.js\<close> declares \<^verbatim>\<open>UrlDefinedDataset\<close> and
  \<^verbatim>\<open>UrlDefinedNarrative\<close> again, each with an \<^verbatim>\<open>exists\<close> of its own that assumes
  existence: \<^verbatim>\<open>return true\<close>. The other classes are as above.
\<close>

definition sources_fetch_js_exists :: "head_fetch \<Rightarrow> resource \<Rightarrow> js_error + bool" where
  "sources_fetch_js_exists head r =
     (if cls r = UrlDefinedDataset \<or> cls r = UrlDefinedNarrative then Inr True
      else Resource_exists head (cls r) r)"

section \<open>Alias resolution\<close>

text \<open>
  The process-wide \<^verbatim>\<open>global.availableDatasets\<close>: under each source name the list of
  known dataset paths, under \<^verbatim>\<open>defaults\<close> an object per source name that maps a path
  prefix to its next default segment, under \<^verbatim>\<open>secondTreeOptions\<close> an object per source
  name. An object of JavaScript has finitely many keys: the inner maps are association
  lists of the object's own properties. \<open>None\<close> is a missing property
  (\<^verbatim>\<open>undefined\<close>).
\<close>

record availability_cache =
  paths :: "string \<rightharpoonup> string list"
  defaults :: "string \<rightharpoonup> (string \<times> string) list"
  secondTreeOptions :: "string \<rightharpoonup> (string \<times> string list) list"

text \<open>
  A defaults object is a plain object, and \<^verbatim>\<open>object[key]\<close> on a plain object answers
  the properties it inherits from \<^verbatim>\<open>Object.prototype\<close> as well: eleven functions and
  the accessor \<^verbatim>\<open>__proto__\<close>, whose value is \<^verbatim>\<open>Object.prototype\<close> itself. All twelve
  values are truthy. The code uses a path segment only through \<^verbatim>\<open>join\<close>, the spread of
  the array and its length, so a segment is held as the string \<^verbatim>\<open>join\<close> makes of it:
  for an inherited value, the text the engine prints for a native function, or
  \<^verbatim>\<open>[object Object]\<close>.
\<close>

definition Object_prototype :: "(string \<times> string) list" where
  "Object_prototype =
     [(''constructor'', ''function Object() { [native code] }''),
      (''__defineGetter__'', ''function __defineGetter__() { [native code] }''),
      (''__defineSetter__'', ''function __defineSetter__() { [native code] }''),
      (''hasOwnProperty'', ''function hasOwnProperty() { [native code] }''),
      (''__lookupGetter__'', ''function __lookupGetter__() { [native code] }''),
      (''__lookupSetter__'', ''function __lookupSetter__() { [native code] }''),
      (''isPrototypeOf'', ''function isPrototypeOf() { [native code] }''),
      (''propertyIsEnumerable'', ''function propertyIsEnumerable() { [native code] }''),
      (''toString'', ''function toString() { [native code] }''),
      (''valueOf'', ''function valueOf() { [native code] }''),
      (''__proto__'', ''[object Object]''),
      (''toLocaleString'', ''function toLocaleString() { [native code] }'')]"

text \<open>
  \<^verbatim>\<open>object[key]\<close> on a plain object with the own properties \<open>own\<close>: an own property
  shadows an inherited one.
\<close>

definition get_property :: "(string \<times> string) list \<Rightarrow> string \<Rightarrow> string option" where
  "get_property own key =
     (case map_of own key of
        Some v \<Rightarrow> Some v
      | None \<Rightarrow> map_of Object_prototype key)"

text \<open>\<^verbatim>\<open>resolve\<close> is a method of \<^verbatim>\<open>Dataset\<close> and of its subclasses only.\<close>

definition is_dataset :: "resource_class \<Rightarrow> bool" where
  "is_dataset c = (c = Dataset \<or> c = CommunityDataset \<or> c = UrlDefinedDataset)"

text \<open>
  One activation of \<^verbatim>\<open>Dataset.resolve\<close>, up to its \<^verbatim>\<open>return\<close>: it returns a dataset
  (\<open>Return\<close>), or constructs a longer dataset and calls \<^verbatim>\<open>resolve\<close> on it (\<open>Recurse\<close>),
  or throws. Reading \<^verbatim>\<open>defaults[sourceName][prefix]\<close> when \<^verbatim>\<open>defaults[sourceName]\<close> is
  \<^verbatim>\<open>undefined\<close> is a \<^verbatim>\<open>TypeError\<close>; an empty string is falsy. No source of the
  registry is named like a property of \<^verbatim>\<open>Object.prototype\<close> (\<open>name_not_inherited\<close>
  below), so the two lookups by source name find own properties only.
\<close>

datatype resolve_outcome = Return resource | Recurse resource

definition resolve_step :: "availability_cache \<Rightarrow> resource \<Rightarrow> js_error + resolve_outcome" where
  "resolve_step c d =
     (let sourceName = name (source d); prefixParts = pathParts d in
      if \<not> is_dataset (cls d) then Inl (TypeError ''resolve is not a function'')
      else
        (case paths c sourceName of
           None \<Rightarrow> Inr (Return d)
         | Some avail \<Rightarrow>
             (let prefix = js_join ''/'' prefixParts in
              if prefix \<in> set avail then Inr (Return d)
              else
                (case defaults c sourceName of
                   None \<Rightarrow> Inl (TypeError ''Cannot read properties of undefined'')
                 | Some dm \<Rightarrow>
                     (case get_property dm prefix of
                        None \<Rightarrow> Inr (Return d)
                      | Some nextDefaultPart \<Rightarrow>
                          if nextDefaultPart \<noteq> []
                          then (case new_Resource (cls d) (source d)
                                       (prefixParts @ [nextDefaultPart]) of
                                  Inl e \<Rightarrow> Inl e
                                | Inr ds \<Rightarrow> Inr (Recurse ds))
                          else Inr (Return d))))))"

text \<open>
  The defaults object of a source (empty when there is none) and the number of its
  property names, own and inherited, that are at least as long as the joined path of a
  dataset. Every recursive call of \<^verbatim>\<open>resolve\<close> makes the joined path longer and needs
  it to be such a name, so this number decreases.
\<close>

definition source_defaults :: "availability_cache \<Rightarrow> source \<Rightarrow> (string \<times> string) list" where
  "source_defaults c s = (case defaults c (name s) of None \<Rightarrow> [] | Some dm \<Rightarrow> dm)"

definition resolve_measure :: "availability_cache \<Rightarrow> resource \<Rightarrow> nat" where
  "resolve_measure c d =
     length (filter (\<lambda>k. length (js_join ''/'' (pathParts d)) \<le> length k)
               (map fst (source_defaults c (source d) @ Object_prototype)))"

text \<open>
  \<^verbatim>\<open>Dataset.resolve\<close>: the activation above, repeated through the recursive call
  \<^verbatim>\<open>return dataset.resolve()\<close>. That the recursion ends is proved below, with the
  measure \<open>resolve_measure\<close>.
\<close>

function resolve :: "availability_cache \<Rightarrow> resource \<Rightarrow> js_error + resource" where
  "resolve c d =
     (case resolve_step c d of
        Inl e \<Rightarrow> Inl e
      | Inr (Return r) \<Rightarrow> Inr r
      | Inr (Recurse ds) \<Rightarrow> resolve c ds)"
  by pat_completeness auto

text \<open>
  The same recursion on a call stack that holds \<open>k\<close> activations of \<^verbatim>\<open>resolve\<close>:
  \<open>None\<close> when the stack is full before \<^verbatim>\<open>resolve\<close> returns or throws.
\<close>

fun resolve_fuel :: "nat \<Rightarrow> availability_cache \<Rightarrow> resource \<Rightarrow> (js_error + resource) option" where
  "resolve_fuel 0 c d = None"
| "resolve_fuel (Suc k) c d =
     (case resolve_step c d of
        Inl e \<Rightarrow> Some (Inl e)
      | Inr (Return r) \<Rightarrow> Some (Inr r)
      | Inr (Recurse ds) \<Rightarrow> resolve_fuel k c ds)"

text \<open>
  \<^verbatim>\<open>resolve\<close> as an engine with room for \<open>frames\<close> activations runs it: the engine
  raises a \<^verbatim>\<open>RangeError\<close> when the recursion needs more. The code itself counts no
  depth and remembers no prefix it has seen.
\<close>

definition resolve_on_stack :: "nat \<Rightarrow> availability_cache \<Rightarrow> resource \<Rightarrow> js_error + resource" where
  "resolve_on_stack frames c d =
     (case resolve_fuel frames c d of
        None \<Rightarrow> Inl (RangeError ''Maximum call stack size exceeded'')
      | Some r \<Rightarrow> r)"

section \<open>Object-storage sources\<close>

text \<open>
  The services an S3 source calls are parameters: the pages \<^verbatim>\<open>listObjectsV2\<close> hands to
  the \<^verbatim>\<open>eachPage\<close> callback for a bucket, \<^verbatim>\<open>getObject\<close>, \<^verbatim>\<open>getSignedUrl\<close>,
  \<^verbatim>\<open>zlib.gunzipSync\<close> and \<^verbatim>\<open>yamlFront.loadFront\<close>. Each can fail with an exception.
\<close>

record s3_listed =
  Key :: string

datatype s3_page = PageError string | PageData "s3_listed list"

record s3_stored =
  ContentEncoding :: "string option"
  Body :: string

record front_matter =
  fm_title :: jsval
  fm_byline :: jsval
  fm_website :: jsval
  fm_showDatasets :: jsval
  fm_showNarratives :: jsval
  fm_content :: string

record services =
  listObjectsV2 :: "string \<Rightarrow> s3_page list"
  getObject :: "string \<Rightarrow> string \<Rightarrow> js_error + s3_stored"
  getSignedUrl :: "string \<Rightarrow> string \<Rightarrow> string \<Rightarrow> js_error + string"
  gunzipSync :: "string \<Rightarrow> js_error + string"
  loadFront :: "string \<Rightarrow> js_error + front_matter"

text \<open>
  The \<^verbatim>\<open>eachPage\<close> callback of \<^verbatim>\<open>_listObjects\<close>: an error rejects, a page is
  appended to \<^verbatim>\<open>contents\<close>, the end of the pages (\<^verbatim>\<open>data === null\<close>) resolves.
  The warning printed on an error is left out.
\<close>

fun eachPage :: "s3_page list \<Rightarrow> s3_listed list \<Rightarrow> js_error + s3_listed list" where
  "eachPage [] contents = Inr contents"
| "eachPage (PageError m # ps) contents = Inl (Error m)"
| "eachPage (PageData cs # ps) contents = eachPage ps (contents @ cs)"

definition listObjects :: "services \<Rightarrow> source \<Rightarrow> js_error + s3_listed list" where
  "listObjects env s = eachPage (listObjectsV2 env (bucket s)) []"

definition getAndDecompressObject :: "services \<Rightarrow> source \<Rightarrow> string \<Rightarrow> js_error + string" where
  "getAndDecompressObject env s key =
     (case getObject env (bucket s) key of
        Inl e \<Rightarrow> Inl e
      | Inr object \<Rightarrow>
          if ContentEncoding object = Some ''gzip'' then gunzipSync env (Body object)
          else Inr (Body object))"

text \<open>
  \<^verbatim>\<open>v.includes("http")\<close> on a front matter value: a substring test on a string, a
  membership test on an array, a \<^verbatim>\<open>TypeError\<close> on anything else.
\<close>

fun includes_http :: "jsval \<Rightarrow> js_error + bool" where
  "includes_http (JStr s) = Inr (str_includes s ''http'')"
| "includes_http (JArr xs) = Inr (JStr ''http'' \<in> set xs)"
| "includes_http v = Inl (TypeError ''frontMatter.website.includes is not a function'')"

fun is_boolean :: "jsval \<Rightarrow> bool" where
  "is_boolean (JBool b) = True"
| "is_boolean v = False"

definition dq :: char where
  "dq = CHR 0x22"

definition parseOverviewMarkdown ::
  "services \<Rightarrow> string \<Rightarrow> js_error + (jsval \<times> jsval \<times> jsval \<times> jsval \<times> jsval \<times> string)" where
  "parseOverviewMarkdown env overviewMarkdown =
     (case loadFront env overviewMarkdown of
        Inl e \<Rightarrow> Inl e
      | Inr frontMatter \<Rightarrow>
          if \<not> truthy (fm_title frontMatter)
          then Inl (Error ''The overview file requires `title` in the frontmatter.'')
          else
            (case (if truthy (fm_website frontMatter) then includes_http (fm_website frontMatter)
                   else Inr True) of
               Inl e \<Rightarrow> Inl e
             | Inr http \<Rightarrow>
                 if \<not> http
                 then Inl (Error (''The website field in the overview file requires '' @ [dq]
                              @ ''http'' @ [dq] @ '' to be present.''))
                 else if truthy (fm_showDatasets frontMatter)
                         \<and> \<not> is_boolean (fm_showDatasets frontMatter)
                 then Inl (Error ''The `showDatasets` field in the frontmatter must be a boolean.'')
                 else if truthy (fm_showNarratives frontMatter)
                         \<and> \<not> is_boolean (fm_showNarratives frontMatter)
                 then Inl (Error ''The `showNarratives` field in the frontmatter must be a boolean.'')
                 else Inr (fm_title frontMatter, fm_byline frontMatter, fm_website frontMatter,
                           fm_showDatasets frontMatter, fm_showNarratives frontMatter,
                           crlf_to_lf (fm_content frontMatter))))"

text \<open>The record \<^verbatim>\<open>getInfo\<close> returns; \<open>JUndefined\<close> is a property that is not set.\<close>

record info =
  title :: jsval
  byline :: jsval
  website :: jsval
  showDatasets :: jsval
  showNarratives :: jsval
  avatar :: jsval
  overview :: jsval
  error :: jsval

definition group_title :: "source \<Rightarrow> string" where
  "group_title s = [dq] @ name s @ [dq] @ '' Nextstrain group''"

definition group_byline :: string where
  "group_byline = ''The available datasets and narratives in this group are listed below.''"

text \<open>\<^verbatim>\<open>if (v == null) v = true\<close>.\<close>

fun default_true :: "jsval \<Rightarrow> jsval" where
  "default_true JUndefined = JBool True"
| "default_true JNull = JBool True"
| "default_true v = v"

text \<open>The \<^verbatim>\<open>try\<close> block of \<^verbatim>\<open>S3Source.getInfo\<close>.\<close>

definition S3Source_getInfo_try :: "services \<Rightarrow> source \<Rightarrow> js_error + info" where
  "S3Source_getInfo_try env s =
     (case listObjects env s of
        Inl e \<Rightarrow> Inl e
      | Inr objects \<Rightarrow>
          (let objectKeys = map Key objects in
           case (if ''group-logo.png'' \<in> set objectKeys
                 then map_sum id JStr (getSignedUrl env ''getObject'' (bucket s) ''group-logo.png'')
                 else Inr JUndefined) of
             Inl e \<Rightarrow> Inl e
           | Inr logoSrc \<Rightarrow>
               if ''group-overview.md'' \<in> set objectKeys
               then
                 (case getAndDecompressObject env s ''group-overview.md'' of
                    Inl e \<Rightarrow> Inl e
                  | Inr overviewContent \<Rightarrow>
                      (case parseOverviewMarkdown env overviewContent of
                         Inl e \<Rightarrow> Inl e
                       | Inr (t, b, w, sd, sn, ov) \<Rightarrow>
                           Inr \<lparr>title = t, byline = b, website = w,
                                showDatasets = default_true sd,
                                showNarratives = default_true sn,
                                avatar = logoSrc, overview = JStr ov,
                                error = JUndefined\<rparr>))
               else Inr \<lparr>title = JStr (group_title s), byline = JStr group_byline,
                         website = JNull, showDatasets = JBool True,
                         showNarratives = JBool True, avatar = logoSrc,
                         overview = JUndefined, error = JUndefined\<rparr>))"

text \<open>The \<^verbatim>\<open>catch\<close> block of \<^verbatim>\<open>S3Source.getInfo\<close>.\<close>

definition S3Source_getInfo_catch :: "source \<Rightarrow> js_error \<Rightarrow> info" where
  "S3Source_getInfo_catch s err =
     \<lparr>title = JStr (group_title s), byline = JStr group_byline, website = JNull,
      showDatasets = JBool True, showNarratives = JBool True,
      avatar = JUndefined, overview = JUndefined,
      error = JStr (''Error in custom group info: '' @ message err)\<rparr>"

definition S3Source_getInfo :: "services \<Rightarrow> source \<Rightarrow> js_error + info" where
  "S3Source_getInfo env s =
     (case S3Source_getInfo_try env s of
        Inl err \<Rightarrow> Inr (S3Source_getInfo_catch s err)
      | Inr r \<Rightarrow> Inr r)"

definition no_info :: info where
  "no_info = \<lparr>title = JUndefined, byline = JUndefined, website = JUndefined,
      showDatasets = JUndefined, showNarratives = JUndefined,
      avatar = JUndefined, overview = JUndefined, error = JUndefined\<rparr>"

text \<open>
  The byline of \<^verbatim>\<open>CommunitySource.getInfo\<close>, a template literal over three lines; the
  arrow is the three bytes of its UTF-8 encoding.
\<close>

definition community_byline :: "community \<Rightarrow> string" where
  "community_byline c =
     [CHR 0x0A] @ ''        Nextstrain community builds for GitHub ''
     @ [CHR 0xE2, CHR 0x86, CHR 0x92] @ '' '' @ owner c @ ''/'' @ repoName c
     @ '' ('' @ branch c @ '' branch).''
     @ [CHR 0x0A] @ ''        The available datasets and narratives in this repository are listed below.''
     @ [CHR 0x0A] @ ''      ''"

text \<open>
  \<^verbatim>\<open>source.getInfo()\<close> for the classes of the registry: \<^verbatim>\<open>CoreSource\<close> (inherited by
  \<^verbatim>\<open>CoreStagingSource\<close>), \<^verbatim>\<open>CommunitySource\<close>, \<^verbatim>\<open>UrlDefinedSource\<close> and
  \<^verbatim>\<open>S3Source\<close> (inherited by every group).
\<close>

fun getInfo :: "services \<Rightarrow> source \<Rightarrow> js_error + info" where
  "getInfo env (CommunitySource c) =
     Inr (no_info\<lparr>
       title := JStr (owner c @ [CHR 0x27] @ ''s '' @ [dq] @ repoName c @ [dq] @ '' community builds''),
       byline := JStr (community_byline c),
       website := JNull,
       showDatasets := JBool True,
       showNarratives := JBool True,
       avatar := JStr (''https://github.com/'' @ owner c @ ''.png?size=200'')\<rparr>)"
| "getInfo env (UrlDefinedSource a) = Inr no_info"
| "getInfo env (PublicGroupSource g) = S3Source_getInfo env (PublicGroupSource g)"
| "getInfo env (PrivateGroupSource g) = S3Source_getInfo env (PrivateGroupSource g)"
| "getInfo env s =
     Inr (no_info\<lparr>
       title := JStr (''Nextstrain '' @ name s @ '' datasets & narratives''),
       showDatasets := JBool True,
       showNarratives := JBool True\<rparr>)"

definition is_S3Source :: "source \<Rightarrow> bool" where
  "is_S3Source s = (case s of PublicGroupSource g \<Rightarrow> True | PrivateGroupSource g \<Rightarrow> True | _ \<Rightarrow> False)"

section \<open>GitHub-hosted listings\<close>

text \<open>
  The response of the contents-listing request is a parameter: its status and the
  entries of its JSON body. A listing returns the warnings it prints through
  \<^verbatim>\<open>utils.warn\<close> and its result.
\<close>

record gh_file =
  file_type :: string
  file_name :: string

record response =
  status :: nat
  json :: "gh_file list"

type_synonym listing = "string list \<times> (js_error + string list)"

text \<open>
  \<^verbatim>\<open>CoreSource.availableNarratives\<close>, inherited by \<^verbatim>\<open>CoreStagingSource\<close>; \<open>response\<close>
  answers the request for the contents of the narratives repository at the branch.
\<close>

definition CoreSource_availableNarratives :: "source \<Rightarrow> response \<Rightarrow> listing" where
  "CoreSource_availableNarratives s response =
     (if status response = 404 then ([], Inl NotFound)
      else if status response \<noteq> 200 \<and> status response \<noteq> 304
      then ([''Error fetching available narratives from GitHub for source '' @ name s], Inr [])
      else
        ([], Inr (map (\<lambda>file. js_join ''/'' (js_split CHR ''_'' (strip_suffix ''.md'' (file_name file))))
                   (filter (\<lambda>file. endsWith (file_name file) ''.md'')
                     (filter (\<lambda>file. file_name file \<noteq> ''README.md'')
                       (filter (\<lambda>file. file_type file = ''file'') (json response)))))))"

text \<open>
  \<^verbatim>\<open>CoreSource.availableDatasets\<close> reads the availability cache and sends no request.
\<close>

definition CoreSource_availableDatasets :: "availability_cache \<Rightarrow> source \<Rightarrow> string list" where
  "CoreSource_availableDatasets c s = (case paths c (name s) of None \<Rightarrow> [] | Some avail \<Rightarrow> avail)"

text \<open>
  \<^verbatim>\<open>CommunitySource.availableDatasets\<close>; \<open>response\<close> answers the request for the
  contents of \<^verbatim>\<open>auspice\<close>. \<^verbatim>\<open>utils.getDatasetsFromListOfFilenames\<close> is not part of
  the sources at hand and is a parameter.
\<close>

definition CommunitySource_availableDatasets ::
  "(string list \<Rightarrow> string list) \<Rightarrow> community \<Rightarrow> response \<Rightarrow> listing" where
  "CommunitySource_availableDatasets getDatasetsFromListOfFilenames c response =
     (if status response = 404 then ([], Inl NotFound)
      else if status response \<noteq> 200 \<and> status response \<noteq> 304
      then ([''Error fetching available datasets from GitHub for source community''], Inr [])
      else
        (let filenames =
               map file_name
                 (filter (\<lambda>file. startsWith (file_name file) (repoName c))
                   (filter (\<lambda>file. file_type file = ''file'') (json response)));
             pathnames =
               map (\<lambda>pathname. remove_first (repoName c @ ''/'') pathname)
                 (getDatasetsFromListOfFilenames filenames)
         in ([], Inr pathnames)))"

text \<open>
  \<^verbatim>\<open>CommunitySource.availableNarratives\<close>; \<open>response\<close> answers the request for the
  contents of \<^verbatim>\<open>narratives\<close>. A 404 is an empty listing and prints nothing: "not found
  doesn't warrant an error print, it means there are no narratives for this repo".
\<close>

definition CommunitySource_availableNarratives :: "community \<Rightarrow> response \<Rightarrow> listing" where
  "CommunitySource_availableNarratives c response =
     (if status response \<noteq> 200 \<and> status response \<noteq> 304
      then
        (if status response \<noteq> 404
         then ([''Error fetching available narratives from GitHub for source community''], Inr [])
         else ([], Inr []))
      else
        ([], Inr (map (\<lambda>file. js_join ''/'' (js_split CHR ''_''
                          (strip_suffix ''.md''
                            (strip_leading_underscore
                              (remove_first (repoName c) (file_name file))))))
                   (filter (\<lambda>file. startsWith (file_name file) (repoName c))
                     (filter (\<lambda>file. endsWith (file_name file) ''.md'')
                       (filter (\<lambda>file. file_name file \<noteq> ''README.md'')
                         (filter (\<lambda>file. file_type file = ''file'') (json response))))))))"

section \<open>Example inputs\<close>

text \<open>
  Concrete resources, caches and network behaviours, in the shape of the test paths of
  \<^verbatim>\<open>test/requests.test.js\<close>, at which the properties below are evaluated.
\<close>

definition zika :: resource where
  "zika = \<lparr>cls = Dataset, source = CoreSource, pathParts = [''zika'']\<rparr>"

definition head_legacy :: head_fetch where
  "head_legacy s key = (if key = ''zika.json'' then Inr 404 else Inr 200)"

definition head_tree_missing :: head_fetch where
  "head_tree_missing s key = (if key = ''zika_meta.json'' then Inr 200 else Inr 404)"

definition head_all_404 :: head_fetch where
  "head_all_404 s key = Inr 404"

definition fetched :: resource where
  "fetched = \<lparr>cls = UrlDefinedDataset, source = UrlDefinedSource ''example.org'',
              pathParts = [''data'', ''zika.json'']\<rparr>"

definition fetched_narrative :: resource where
  "fetched_narrative = \<lparr>cls = UrlDefinedNarrative, source = UrlDefinedSource ''example.org'',
                        pathParts = [''intro.md'']\<rparr>"

definition community_test :: community where
  "community_test = \<lparr>owner = ''nextstrain'', repoName = ''community-test'', branch = ''master'',
          branchExplicitlyDefined = False, defaultBranch = ''master''\<rparr>"

definition core_dataset :: "string list \<Rightarrow> resource" where
  "core_dataset pp = \<lparr>cls = Dataset, source = CoreSource, pathParts = pp\<rparr>"

definition flu_cache :: availability_cache where
  "flu_cache =
     \<lparr>paths = [''core'' \<mapsto> [''flu/seasonal/h3n2/ha/2y'', ''zika'']],
      defaults = [''core'' \<mapsto> [(''flu'', ''seasonal''), (''flu/seasonal'', ''h3n2''),
                                 (''flu/seasonal/h3n2'', ''ha''), (''flu/seasonal/h3n2/ha'', ''2y'')]],
      secondTreeOptions = Map.empty\<rparr>"

definition cyclic_cache :: availability_cache where
  "cyclic_cache =
     \<lparr>paths = [''core'' \<mapsto> [''zika'']],
      defaults = [''core'' \<mapsto> [(''a'', ''b''), (''a/b'', ''a''), (''b'', ''a''), (''b/a'', ''b'')]],
      secondTreeOptions = Map.empty\<rparr>"

text \<open>
  A chain of \<open>n\<close> defaults of the core source: \<^verbatim>\<open>a\<close>, \<^verbatim>\<open>a/a\<close>, \<^verbatim>\<open>a/a/a\<close>, ... each
  with the next segment \<^verbatim>\<open>a\<close>, and no known path.
\<close>

definition chain_defaults :: "nat \<Rightarrow> (string \<times> string) list" where
  "chain_defaults n = map (\<lambda>i. (js_join ''/'' (replicate (Suc i) ''a''), ''a'')) [0..<n]"

definition chain_cache :: "nat \<Rightarrow> availability_cache" where
  "chain_cache n =
     \<lparr>paths = [''core'' \<mapsto> []], defaults = [''core'' \<mapsto> chain_defaults n],
      secondTreeOptions = Map.empty\<rparr>"

definition empty_defaults_cache :: availability_cache where
  "empty_defaults_cache =
     \<lparr>paths = [''core'' \<mapsto> [''zika'']], defaults = [''core'' \<mapsto> []],
      secondTreeOptions = Map.empty\<rparr>"

definition cache_without_defaults :: availability_cache where
  "cache_without_defaults =
     \<lparr>paths = [''core'' \<mapsto> [''zika'']], defaults = Map.empty, secondTreeOptions = Map.empty\<rparr>"

definition listing_fails :: services where
  "listing_fails =
     \<lparr>listObjectsV2 = (\<lambda>b. [PageError ''Access Denied'']),
      getObject = (\<lambda>b k. Inl (Error ''NoSuchKey'')),
      getSignedUrl = (\<lambda>operation b k. Inr (''https://'' @ b @ ''.s3.amazonaws.com/'' @ k)),
      gunzipSync = (\<lambda>body. Inr body),
      loadFront = (\<lambda>md. Inl (Error ''bad front matter''))\<rparr>"

section \<open>Properties\<close>

subsection \<open>Termination of alias resolution\<close>

lemma js_join_snoc:
  "js_join sep (xs @ [n]) = (if xs = [] then n else js_join sep xs @ sep @ n)"
  by (induction sep xs rule: js_join.induct) auto

lemma resolve_step_Recurse:
  assumes "resolve_step c d = Inr (Recurse d')"
  shows "\<exists>n dm. n \<noteq> [] \<and> defaults c (name (source d)) = Some dm
           \<and> get_property dm (js_join ''/'' (pathParts d)) = Some n
           \<and> d' = \<lparr>cls = cls d, source = source d, pathParts = pathParts d @ [n]\<rparr>"
  using assms
  by (auto simp: resolve_step_def Let_def new_Resource_def
           split: option.splits if_splits sum.splits)

lemma filter_length_less:
  assumes "x \<in> set xs" "P x" "\<not> Q x" "\<And>y. Q y \<Longrightarrow> P y"
  shows "length (filter Q xs) < length (filter P xs)"
proof -
  have "filter Q xs = filter Q (filter P xs)"
    using assms(4) by (auto intro: filter_cong)
  moreover have "x \<in> set (filter P xs)" using assms by simp
  ultimately show ?thesis
    using length_filter_less [of x "filter P xs" Q] assms(3) by simp
qed

lemma resolve_step_decreases:
  assumes "resolve_step c d = Inr (Recurse d')"
  shows "resolve_measure c d' < resolve_measure c d"
proof -
  from resolve_step_Recurse [OF assms] obtain n dm where
    n: "n \<noteq> []" and dm: "defaults c (name (source d)) = Some dm"
    and look: "get_property dm (js_join ''/'' (pathParts d)) = Some n"
    and d': "d' = \<lparr>cls = cls d, source = source d, pathParts = pathParts d @ [n]\<rparr>"
    by blast
  let ?p = "js_join ''/'' (pathParts d)"
  have longer: "length ?p < length (js_join ''/'' (pathParts d @ [n]))"
    using n by (cases "pathParts d = []") (simp_all add: js_join_snoc)
  have mem: "?p \<in> set (map fst (dm @ Object_prototype))"
    using look by (force simp: get_property_def dest: map_of_SomeD split: option.splits)
  have sd: "source_defaults c (source d) = dm"
    using dm by (simp add: source_defaults_def)
  have "length (filter (\<lambda>k. length (js_join ''/'' (pathParts d @ [n])) \<le> length k)
                  (map fst (dm @ Object_prototype)))
      < length (filter (\<lambda>k. length ?p \<le> length k) (map fst (dm @ Object_prototype)))"
    using mem longer by (intro filter_length_less [where x = ?p]) simp_all
  then show ?thesis
    unfolding resolve_measure_def d' by (simp only: sd simp_thms resource.simps)
qed

termination resolve
  by (relation "measure (\<lambda>(c, d). resolve_measure c d)")
     (auto simp: resolve_step_decreases)

declare resolve.simps [simp del]

subsection \<open>Auxiliary facts about alias resolution\<close>

lemma resolve_step_Return:
  "resolve_step c d = Inr (Return r) \<Longrightarrow> r = d"
  by (auto simp: resolve_step_def Let_def split: option.splits if_splits sum.splits)

lemma resolve_result_is_terminal:
  "resolve c d = Inr r \<Longrightarrow> resolve_step c r = Inr (Return r)"
proof (induction c d rule: resolve.induct)
  case (1 c d)
  show ?case
  proof (cases "resolve_step c d")
    case (Inl e)
    with "1.prems" show ?thesis by (simp add: resolve.simps [of c d])
  next
    case (Inr out)
    show ?thesis
    proof (cases out)
      case (Return r')
      with Inr "1.prems" have "r' = r" by (simp add: resolve.simps [of c d])
      moreover from Inr Return have "r' = d" by (simp add: resolve_step_Return)
      ultimately show ?thesis using Inr Return by simp
    next
      case (Recurse ds)
      with Inr "1.prems" have "resolve c ds = Inr r" by (simp add: resolve.simps [of c d])
      with "1.IH" Inr Recurse show ?thesis by simp
    qed
  qed
qed

lemma resolve_extends:
  "resolve c d = Inr r \<Longrightarrow>
     cls r = cls d \<and> source r = source d \<and> prefix (pathParts d) (pathParts r)"
proof (induction c d rule: resolve.induct)
  case (1 c d)
  show ?case
  proof (cases "resolve_step c d")
    case (Inl e)
    with "1.prems" show ?thesis by (simp add: resolve.simps [of c d])
  next
    case (Inr out)
    show ?thesis
    proof (cases out)
      case (Return r')
      with Inr "1.prems" have "r' = r" by (simp add: resolve.simps [of c d])
      moreover from Inr Return have "r' = d" by (simp add: resolve_step_Return)
      ultimately show ?thesis by simp
    next
      case (Recurse ds)
      with Inr "1.prems" have res: "resolve c ds = Inr r" by (simp add: resolve.simps [of c d])
      from Inr Recurse obtain n where
        ds: "ds = \<lparr>cls = cls d, source = source d, pathParts = pathParts d @ [n]\<rparr>"
        using resolve_step_Recurse by blast
      from "1.IH" [OF Inr Recurse res]
      have "cls r = cls ds \<and> source r = source ds \<and> prefix (pathParts ds) (pathParts r)" .
      then show ?thesis
        unfolding ds by (auto dest: append_prefixD)
    qed
  qed
qed

lemma resolve_fuel_enough:
  "resolve_measure c d < k \<Longrightarrow> resolve_fuel k c d = Some (resolve c d)"
proof (induction k arbitrary: d)
  case 0
  then show ?case by simp
next
  case (Suc k)
  show ?case
  proof (cases "resolve_step c d")
    case (Inl e)
    then show ?thesis by (simp add: resolve.simps [of c d])
  next
    case (Inr out)
    show ?thesis
    proof (cases out)
      case (Return r)
      with Inr show ?thesis by (simp add: resolve.simps [of c d])
    next
      case (Recurse d')
      with Inr have "resolve_measure c d' < resolve_measure c d"
        by (simp add: resolve_step_decreases)
      with Suc.prems have "resolve_measure c d' < k" by simp
      with Suc.IH Inr Recurse show ?thesis by (simp add: resolve.simps [of c d])
    qed
  qed
qed

lemma resolve_measure_le:
  "resolve_measure c d \<le> length (source_defaults c (source d)) + length Object_prototype"
  unfolding resolve_measure_def
  by (metis length_filter_le length_map length_append)

text \<open>
  The part of the last case of \<^verbatim>\<open>resolve\<close> that the code does implement: with a
  defaults object for the source and no truthy next segment under the joined path,
  own or inherited, the dataset itself is returned.
\<close>

lemma resolve_no_default:
  assumes "is_dataset (cls d)" "paths c (name (source d)) = Some avail"
    "js_join ''/'' (pathParts d) \<notin> set avail"
    "defaults c (name (source d)) = Some dm"
    "get_property dm (js_join ''/'' (pathParts d)) = None
       \<or> get_property dm (js_join ''/'' (pathParts d)) = Some []"
  shows "resolve c d = Inr d"
proof -
  have "resolve_step c d = Inr (Return d)"
    using assms by (auto simp: resolve_step_def Let_def)
  then show ?thesis by (simp add: resolve.simps [of c d])
qed

text \<open>
  Default chains that name each other in a cycle do not make \<^verbatim>\<open>resolve\<close> loop: the key
  is the whole joined path, which only grows.
\<close>

lemma resolve_cyclic_defaults:
  "resolve cyclic_cache (core_dataset [''a'']) = Inr (core_dataset [''a'', ''b'', ''a''])"
  by (simp add: resolve.simps resolve_step_def cyclic_cache_def core_dataset_def
        is_dataset_def Let_def new_Resource_def get_property_def Object_prototype_def)

text \<open>
  A joined path that is the name of an inherited property finds the inherited value:
  with an empty defaults object, the core dataset \<^verbatim>\<open>constructor\<close> is completed by the
  function \<^verbatim>\<open>Object\<close>, in two activations.
\<close>

lemma resolve_inherited_property:
  "resolve empty_defaults_cache (core_dataset [''constructor''])
     = Inr (core_dataset [''constructor'', ''function Object() { [native code] }''])"
  by (simp add: resolve.simps resolve_step_def empty_defaults_cache_def core_dataset_def
        is_dataset_def Let_def new_Resource_def get_property_def Object_prototype_def)

lemma resolve_fuel_inherited_property:
  "resolve_fuel 1 empty_defaults_cache (core_dataset [''constructor'']) = None"
  "resolve_fuel 2 empty_defaults_cache (core_dataset [''constructor''])
     = Some (Inr (core_dataset [''constructor'', ''function Object() { [native code] }'']))"
  by (simp_all add: numeral_2_eq_2 resolve_step_def empty_defaults_cache_def core_dataset_def
        is_dataset_def Let_def new_Resource_def get_property_def Object_prototype_def)

text \<open>The lookups by source name never reach an inherited property.\<close>

lemma name_not_inherited: "map_of Object_prototype (name s) = None"
proof (cases s)
  case (PublicGroupSource g)
  then show ?thesis by (cases g) (simp_all add: Object_prototype_def)
next
  case (PrivateGroupSource g)
  then show ?thesis by (cases g) (simp_all add: Object_prototype_def)
qed (simp_all add: Object_prototype_def)

text \<open>
  A run on a bounded stack that returns or throws agrees with the recursion; so what
  is proved of the datasets \<open>resolve\<close> returns holds of those the engine returns.
\<close>

lemma resolve_fuel_sound:
  "resolve_fuel k c d = Some x \<Longrightarrow> resolve c d = x"
proof (induction k arbitrary: d)
  case 0
  then show ?case by simp
next
  case (Suc k)
  show ?case
  proof (cases "resolve_step c d")
    case (Inl e)
    with Suc.prems show ?thesis by (simp add: resolve.simps [of c d])
  next
    case (Inr out)
    show ?thesis
    proof (cases out)
      case (Return r)
      with Inr Suc.prems show ?thesis by (simp add: resolve.simps [of c d])
    next
      case (Recurse d')
      with Inr Suc.prems have "resolve_fuel k c d' = Some x" by simp
      then have "resolve c d' = x" by (rule Suc.IH)
      with Inr Recurse show ?thesis by (simp add: resolve.simps [of c d])
    qed
  qed
qed

lemma resolve_on_stack_Inr:
  "resolve_on_stack frames c d = Inr r \<Longrightarrow> resolve c d = Inr r"
  by (auto simp: resolve_on_stack_def split: option.splits dest: resolve_fuel_sound)

text \<open>
  The chain of \<open>n\<close> defaults makes \<^verbatim>\<open>resolve\<close> nest more than \<open>n\<close> activations.
\<close>

lemma chain_defaults_lookup:
  assumes "i < n"
  shows "get_property (chain_defaults n) (js_join ''/'' (replicate (Suc i) ''a'')) = Some ''a''"
proof -
  have "(js_join ''/'' (replicate (Suc i) ''a''), ''a'') \<in> set (chain_defaults n)"
    using assms by (auto simp: chain_defaults_def)
  then obtain v where v: "map_of (chain_defaults n) (js_join ''/'' (replicate (Suc i) ''a'')) = Some v"
    by (metis weak_map_of_SomeI)
  then have "(js_join ''/'' (replicate (Suc i) ''a''), v) \<in> set (chain_defaults n)"
    by (rule map_of_SomeD)
  then have "v = ''a''" by (auto simp: chain_defaults_def)
  with v show ?thesis by (simp add: get_property_def)
qed

lemma chain_step:
  assumes "i < n"
  shows "resolve_step (chain_cache n) (core_dataset (replicate (Suc i) ''a''))
           = Inr (Recurse (core_dataset (replicate (Suc (Suc i)) ''a'')))"
proof -
  have "replicate (Suc i) ''a'' @ [''a''] = replicate (Suc (Suc i)) ''a''"
    by (simp add: replicate_append_same)
  then show ?thesis
    using chain_defaults_lookup [OF assms]
    by (simp add: resolve_step_def chain_cache_def core_dataset_def is_dataset_def Let_def
          new_Resource_def del: replicate.simps js_join.simps)
qed

lemma resolve_fuel_chain_from:
  "i + k \<le> n \<Longrightarrow> resolve_fuel k (chain_cache n) (core_dataset (replicate (Suc i) ''a'')) = None"
proof (induction k arbitrary: i)
  case 0
  then show ?case by simp
next
  case (Suc k)
  then have "i < n" and "Suc i + k \<le> n" by simp_all
  from chain_step [OF \<open>i < n\<close>] Suc.IH [OF \<open>Suc i + k \<le> n\<close>]
  show ?case by (simp del: replicate.simps)
qed

lemma resolve_fuel_chain:
  "resolve_fuel k (chain_cache k) (core_dataset [''a'']) = None"
  using resolve_fuel_chain_from [of 0 k k] by simp

subsection \<open>Auxiliary facts about existence checks and group information\<close>

text \<open>
  The file names of the subresources, at the examples of the specification: the main
  and a sidecar file of a core dataset, a sidecar of a URL-defined dataset whose last
  segment carries the extension.
\<close>

lemma subresource_baseName_examples:
  "subresource_baseName
     \<lparr>resource = core_dataset [''flu'', ''seasonal'', ''h3n2'', ''ha'', ''2y''], type = ''main''\<rparr>
     = ''flu_seasonal_h3n2_ha_2y.json''"
  "subresource_baseName
     \<lparr>resource = core_dataset [''flu'', ''seasonal'', ''h3n2'', ''ha'', ''2y''],
      type = ''tip-frequencies''\<rparr>
     = ''flu_seasonal_h3n2_ha_2y_tip-frequencies.json''"
  "subresource_baseName \<lparr>resource = fetched, type = ''meta''\<rparr> = ''data/zika_meta.json''"
  by (simp_all add: subresource_baseName_def baseName_def baseParts_def core_dataset_def
        fetched_def endsWith_def strip_suffix_def)

text \<open>The classes of \<^verbatim>\<open>src/sources/fetch.js\<close> assume existence.\<close>

lemma UrlDefined_exists_sources_fetch_js:
  "cls r = UrlDefinedDataset \<or> cls r = UrlDefinedNarrative \<Longrightarrow>
     sources_fetch_js_exists head r = Inr True"
  by (auto simp: sources_fetch_js_exists_def)

text \<open>
  The three kinds of failure inside the \<^verbatim>\<open>try\<close> block of \<^verbatim>\<open>S3Source.getInfo\<close>: the
  listing rejects, the overview object cannot be fetched, its front matter is refused.
\<close>

lemma getInfo_try_listing_error:
  "listObjects env s = Inl e \<Longrightarrow> S3Source_getInfo_try env s = Inl e"
  by (simp add: S3Source_getInfo_try_def)

lemma getInfo_try_missing_object:
  assumes "listObjects env s = Inr objects"
    and "''group-overview.md'' \<in> set (map Key objects)"
    and "getObject env (bucket s) ''group-overview.md'' = Inl e"
  shows "\<exists>e'. S3Source_getInfo_try env s = Inl e'"
  using assms
  by (auto simp: S3Source_getInfo_try_def getAndDecompressObject_def Let_def
           split: sum.splits)

lemma getInfo_try_malformed_front_matter:
  assumes "listObjects env s = Inr objects"
    and "''group-overview.md'' \<in> set (map Key objects)"
    and "getAndDecompressObject env s ''group-overview.md'' = Inr md"
    and "parseOverviewMarkdown env md = Inl e"
  shows "\<exists>e'. S3Source_getInfo_try env s = Inl e'"
  using assms
  by (auto simp: S3Source_getInfo_try_def Let_def split: sum.splits)

lemma parseOverviewMarkdown_requires_title:
  "loadFront env md = Inr fm \<Longrightarrow> \<not> truthy (fm_title fm) \<Longrightarrow>
     parseOverviewMarkdown env md
       = Inl (Error ''The overview file requires `title` in the frontmatter.'')"
  by (simp add: parseOverviewMarkdown_def)

subsection \<open>The claims\<close>

text \<open>
  Claim C1. For every private group source and every principal,
  \<^verbatim>\<open>visibleToUser\<close> is true exactly when the principal is present, has a
  \<^verbatim>\<open>groups\<close> array and the array contains the source's name. It is false for an absent
  principal and for a principal whose \<^verbatim>\<open>groups\<close> array is empty.
\<close>

theorem visibleToUser_iff:
  "visibleToUser (PrivateGroupSource g) p =
     (\<exists>u gs. p = Some u \<and> groups u = Some gs \<and> private_name g \<in> set gs)
   \<and> visibleToUser (PrivateGroupSource g) None = False
   \<and> visibleToUser (PrivateGroupSource g) (Some \<lparr>groups = Some []\<rparr>) = False"
  by (auto simp: PrivateGroupSource_visibleToUser_def split: option.splits)

text \<open>
  Claim C2. \<^verbatim>\<open>Dataset.exists()\<close>, for a resource of a dataset class whose HEAD
  requests all answer with a status: when the HEAD of the "main" subresource answers
  200 the result is true; when it answers another status, the result is true exactly
  when the HEADs of "meta" and of "tree" both answer 200, and false otherwise.
\<close>

theorem Dataset_exists_main_or_meta_and_tree:
  assumes "is_dataset (cls r)"
  shows
    "(head (source r) (subresource_baseName \<lparr>resource = r, type = ''main''\<rparr>) = Inr 200
        \<longrightarrow> Dataset_exists head r = Inr True)
     \<and> (head (source r) (subresource_baseName \<lparr>resource = r, type = ''main''\<rparr>) = Inr m
          \<and> m \<noteq> 200
          \<and> head (source r) (subresource_baseName \<lparr>resource = r, type = ''meta''\<rparr>) = Inr a
          \<and> head (source r) (subresource_baseName \<lparr>resource = r, type = ''tree''\<rparr>) = Inr b
        \<longrightarrow> Dataset_exists head r = Inr (a = 200 \<and> b = 200))"
proof -
  have valid: "''main'' \<in> set (validTypes (cls r))" "''meta'' \<in> set (validTypes (cls r))"
    "''tree'' \<in> set (validTypes (cls r))"
    using assms by (auto simp: is_dataset_def)
  show ?thesis
    by (simp add: Dataset_exists_def exists_type_def new_subresource_def valid)
qed

text \<open>
  At the dataset \<^verbatim>\<open>zika\<close> of the core source: "main" 404 with "meta" and "tree" 200
  exists; "main" 404, "meta" 200, "tree" 404 does not.
\<close>

theorem Dataset_exists_witness:
  "is_dataset (cls zika)
   \<and> Dataset_exists head_legacy zika = Inr True
   \<and> Dataset_exists head_tree_missing zika = Inr False"
proof -
  have d: "is_dataset (cls zika)" by (simp add: zika_def is_dataset_def)
  have "Dataset_exists head_legacy zika = Inr True"
    using Dataset_exists_main_or_meta_and_tree [OF d, of head_legacy 404 200 200]
    by (simp add: zika_def head_legacy_def subresource_baseName_def baseName_def baseParts_def)
  moreover have "Dataset_exists head_tree_missing zika = Inr False"
    using Dataset_exists_main_or_meta_and_tree [OF d, of head_tree_missing 404 200 404]
    by (simp add: zika_def head_tree_missing_def subresource_baseName_def baseName_def baseParts_def)
  ultimately show ?thesis using d by simp
qed

text \<open>
  Claim C3. The claim is that \<^verbatim>\<open>exists()\<close> of a URL-defined dataset or narrative is
  true whatever the network answers. \<^verbatim>\<open>src/sources/fetch.js\<close> does that
  (\<open>UrlDefined_exists_sources_fetch_js\<close>). The classes of the same names in
  \<^verbatim>\<open>src/sources.js\<close> declare no \<^verbatim>\<open>exists\<close>: they inherit the HEAD requests of
  \<^verbatim>\<open>Dataset\<close> and \<^verbatim>\<open>Narrative\<close>, and when every request answers 404 neither the
  URL-defined dataset \<^verbatim>\<open>/fetch/example.org/data/zika.json\<close> nor the URL-defined
  narrative \<^verbatim>\<open>/fetch/narratives/example.org/intro.md\<close> exists.
\<close>

theorem UrlDefined_exists_sources_js:
  "sources_js_exists head_all_404 fetched = Inr False
   \<and> sources_js_exists head_all_404 fetched_narrative = Inr False"
  by (simp add: sources_js_exists_def fetched_def fetched_narrative_def head_all_404_def
        Dataset_exists_def Narrative_exists_def exists_type_def new_subresource_def)

text \<open>
  Claim C4. Canonicalisation is idempotent. A dataset whose joined path is verbatim
  among the known paths of its source resolves to itself; and whatever dataset
  \<^verbatim>\<open>resolve()\<close> returns resolves to itself again.
\<close>

theorem resolve_canonical_idempotent:
  "(is_dataset (cls d) \<and> paths c (name (source d)) = Some avail
      \<and> js_join ''/'' (pathParts d) \<in> set avail \<longrightarrow> resolve c d = Inr d)
   \<and> (resolve c d = Inr r \<longrightarrow> resolve c r = Inr r)"
proof (intro conjI impI)
  assume "is_dataset (cls d) \<and> paths c (name (source d)) = Some avail
      \<and> js_join ''/'' (pathParts d) \<in> set avail"
  then have "resolve_step c d = Inr (Return d)"
    by (simp add: resolve_step_def Let_def)
  then show "resolve c d = Inr d" by (simp add: resolve.simps [of c d])
next
  assume "resolve c d = Inr r"
  then have "resolve_step c r = Inr (Return r)" by (rule resolve_result_is_terminal)
  then show "resolve c r = Inr r" by (simp add: resolve.simps [of c r])
qed

text \<open>
  With the cache of the core flu datasets: the canonical path resolves to itself, and
  the alias \<^verbatim>\<open>flu/seasonal\<close> resolves to it, after which resolving again changes nothing.
\<close>

theorem resolve_canonical_idempotent_witness:
  "is_dataset (cls (core_dataset [''flu'', ''seasonal'', ''h3n2'', ''ha'', ''2y'']))
   \<and> paths flu_cache (name (source (core_dataset [''flu'', ''seasonal'', ''h3n2'', ''ha'', ''2y''])))
       = Some [''flu/seasonal/h3n2/ha/2y'', ''zika'']
   \<and> js_join ''/'' (pathParts (core_dataset [''flu'', ''seasonal'', ''h3n2'', ''ha'', ''2y'']))
       \<in> set [''flu/seasonal/h3n2/ha/2y'', ''zika'']
   \<and> resolve flu_cache (core_dataset [''flu'', ''seasonal''])
       = Inr (core_dataset [''flu'', ''seasonal'', ''h3n2'', ''ha'', ''2y''])
   \<and> resolve flu_cache (core_dataset [''flu'', ''seasonal'', ''h3n2'', ''ha'', ''2y''])
       = Inr (core_dataset [''flu'', ''seasonal'', ''h3n2'', ''ha'', ''2y''])"
proof -
  let ?canonical = "core_dataset [''flu'', ''seasonal'', ''h3n2'', ''ha'', ''2y'']"
  have a: "is_dataset (cls ?canonical)"
    by (simp add: core_dataset_def is_dataset_def)
  have b: "paths flu_cache (name (source ?canonical)) = Some [''flu/seasonal/h3n2/ha/2y'', ''zika'']"
    by (simp add: core_dataset_def flu_cache_def)
  have c: "js_join ''/'' (pathParts ?canonical) \<in> set [''flu/seasonal/h3n2/ha/2y'', ''zika'']"
    by (simp add: core_dataset_def)
  have d: "resolve flu_cache (core_dataset [''flu'', ''seasonal'']) = Inr ?canonical"
    by (simp add: resolve.simps resolve_step_def flu_cache_def core_dataset_def
          is_dataset_def Let_def new_Resource_def get_property_def)
  have "resolve flu_cache ?canonical = Inr ?canonical"
    using resolve_canonical_idempotent
      [where d = "core_dataset [''flu'', ''seasonal'']" and c = flu_cache and r = ?canonical] d
    by simp
  with a b c d show ?thesis by simp
qed

text \<open>
  Claim C5, as stated: \<^verbatim>\<open>Dataset.resolve()\<close> terminates for every availability cache
  because the implementation bounds the recursion, by a maximum depth or by detecting a
  prefix it has seen. The code does neither. On the chain of 20000 defaults the core
  dataset \<^verbatim>\<open>a\<close> has nested 20000 activations and not returned; an engine with room
  for that many ends the call with a \<^verbatim>\<open>RangeError\<close>.
\<close>

theorem resolve_chain_exhausts_stack:
  "resolve_fuel 20000 (chain_cache 20000) (core_dataset [''a'']) = None
   \<and> resolve_on_stack 20000 (chain_cache 20000) (core_dataset [''a''])
       = Inl (RangeError ''Maximum call stack size exceeded'')"
  using resolve_fuel_chain [of 20000]
  by (simp only: resolve_on_stack_def option.case simp_thms)

text \<open>
  Claim C5, amended. \<^verbatim>\<open>Dataset.resolve()\<close> has no depth limit and detects no revisited
  prefix. On an unbounded call stack it terminates for every availability cache: each
  recursive call strictly lengthens the joined path and needs that path to be an own
  key of the defaults object of the dataset's source or the name of one of the twelve
  properties inherited from \<^verbatim>\<open>Object.prototype\<close>, so \<^verbatim>\<open>resolve\<close> returns or throws
  within as many activations as there are such names, plus one, whether or not the
  default segments name each other in a cycle. The depth is bounded by the cache only:
  for every \<open>k\<close>, the chain of \<open>k\<close> defaults exhausts a call stack with room for \<open>k\<close>
  activations, and the call ends with the engine's \<^verbatim>\<open>RangeError\<close>.
\<close>

theorem resolve_terminates:
  "resolve_fuel (Suc (length (source_defaults c (source d)) + length Object_prototype)) c d
     = Some (resolve c d)
   \<and> resolve_on_stack k (chain_cache k) (core_dataset [''a''])
       = Inl (RangeError ''Maximum call stack size exceeded'')"
proof
  show "resolve_fuel (Suc (length (source_defaults c (source d)) + length Object_prototype)) c d
          = Some (resolve c d)"
    using resolve_fuel_enough
            [of c d "Suc (length (source_defaults c (source d)) + length Object_prototype)"]
          resolve_measure_le [of c d]
    by simp
next
  show "resolve_on_stack k (chain_cache k) (core_dataset [''a''])
          = Inl (RangeError ''Maximum call stack size exceeded'')"
    by (simp add: resolve_on_stack_def resolve_fuel_chain)
qed

text \<open>
  On the cyclic defaults, four own keys and twelve inherited names, seventeen
  activations are enough.
\<close>

theorem resolve_terminates_witness:
  "resolve_fuel
     (Suc (length (source_defaults cyclic_cache (source (core_dataset [''a''])))
           + length Object_prototype))
     cyclic_cache (core_dataset [''a''])
   = Some (Inr (core_dataset [''a'', ''b'', ''a'']))"
  using resolve_terminates [THEN conjunct1, of cyclic_cache "core_dataset [''a'']"]
  by (simp only: resolve_cyclic_defaults)

text \<open>
  Claim C6. The claim is that a dataset that matches no known path and has no default
  resolves to itself without raising, also when the cache has no defaults entry for its
  source. With a defaults entry the code does so (\<open>resolve_no_default\<close>). Without one,
  \<^verbatim>\<open>global.availableDatasets.defaults[sourceName][prefix]\<close> reads a property of
  \<^verbatim>\<open>undefined\<close>: the core dataset \<^verbatim>\<open>flu\<close>, with \<^verbatim>\<open>zika\<close> the only known path of the
  core source and an empty \<^verbatim>\<open>defaults\<close>, raises a \<^verbatim>\<open>TypeError\<close>.
\<close>

theorem resolve_missing_defaults_TypeError:
  "resolve cache_without_defaults (core_dataset [''flu''])
     = Inl (TypeError ''Cannot read properties of undefined'')"
  by (simp add: resolve.simps resolve_step_def cache_without_defaults_def core_dataset_def
        is_dataset_def Let_def)

text \<open>
  Claim C7. The constructor of a resource fails with \<^verbatim>\<open>NoResourcePathError\<close> exactly
  when the \<^verbatim>\<open>baseParts\<close> of the new resource is empty. A dataset of the core source
  with no path segments is refused; a dataset of a community source with no path
  segments is constructed, its \<^verbatim>\<open>baseParts\<close> holding the \<^verbatim>\<open>auspice/\<close> segment.
\<close>

theorem new_Resource_empty_baseParts:
  "(new_Resource k s pp = Inl NoResourcePathError) = (baseParts_of k s pp = [])
   \<and> dataset CoreSource [] = Inl NoResourcePathError
   \<and> dataset (CommunitySource cm) []
       = Inr \<lparr>cls = CommunityDataset, source = CommunitySource cm, pathParts = []\<rparr>"
  by (simp add: new_Resource_def)

text \<open>
  Claim C8. \<^verbatim>\<open>getInfo()\<close> never raises, for any source of the registry and any
  behaviour of the storage services. When the \<^verbatim>\<open>try\<close> block of a group source fails
  with an error, the record returned carries an \<^verbatim>\<open>error\<close> field with the message of
  that error, the generic title of the group, and \<^verbatim>\<open>showDatasets\<close> and
  \<^verbatim>\<open>showNarratives\<close> both true.
\<close>

theorem getInfo_never_raises:
  "(\<exists>r. getInfo env s = Inr r)
   \<and> (is_S3Source s \<and> S3Source_getInfo_try env s = Inl err \<longrightarrow>
        (\<exists>r. getInfo env s = Inr r
           \<and> error r = JStr (''Error in custom group info: '' @ message err)
           \<and> title r = JStr (group_title s)
           \<and> showDatasets r = JBool True
           \<and> showNarratives r = JBool True))"
  by (cases s)
     (auto simp: S3Source_getInfo_def S3Source_getInfo_catch_def is_S3Source_def
           split: sum.splits)

text \<open>A bucket whose listing is denied.\<close>

theorem getInfo_never_raises_witness:
  "is_S3Source (PublicGroupSource BlabSource)
   \<and> S3Source_getInfo_try listing_fails (PublicGroupSource BlabSource) = Inl (Error ''Access Denied'')
   \<and> (\<exists>r. getInfo listing_fails (PublicGroupSource BlabSource) = Inr r
        \<and> error r = JStr ''Error in custom group info: Access Denied''
        \<and> title r = JStr (group_title (PublicGroupSource BlabSource))
        \<and> showDatasets r = JBool True
        \<and> showNarratives r = JBool True)"
proof -
  have a: "is_S3Source (PublicGroupSource BlabSource)" by (simp add: is_S3Source_def)
  have b: "S3Source_getInfo_try listing_fails (PublicGroupSource BlabSource)
             = Inl (Error ''Access Denied'')"
    by (simp add: S3Source_getInfo_try_def listObjects_def listing_fails_def)
  show ?thesis
    using getInfo_never_raises
      [of listing_fails "PublicGroupSource BlabSource" "Error ''Access Denied''"] a b
    by simp
qed

text \<open>
  Claim C9, as stated: every GitHub-hosted listing raises a not-found error on a 404.
  \<^verbatim>\<open>CommunitySource.availableNarratives\<close> does not: a 404 is an empty listing.
\<close>

theorem CommunitySource_availableNarratives_404:
  "CommunitySource_availableNarratives community_test \<lparr>status = 404, json = []\<rparr> = ([], Inr [])
   \<and> snd (CommunitySource_availableNarratives community_test \<lparr>status = 404, json = []\<rparr>)
       \<noteq> Inl NotFound"
  by (simp add: CommunitySource_availableNarratives_def)

text \<open>
  Claim C9, amended. On a 404 from the contents-listing request,
  \<^verbatim>\<open>CoreSource.availableNarratives\<close> and \<^verbatim>\<open>CommunitySource.availableDatasets\<close> raise
  \<^verbatim>\<open>NotFound\<close>, and \<^verbatim>\<open>CommunitySource.availableNarratives\<close> returns an empty list and
  prints no warning. On every status other than 200, 304 and 404 each of the three
  prints a warning and returns an empty list.
\<close>

theorem github_listing_failure_policy:
  "(status response = 404 \<longrightarrow>
      CoreSource_availableNarratives s response = ([], Inl NotFound)
    \<and> CommunitySource_availableDatasets g c response = ([], Inl NotFound)
    \<and> CommunitySource_availableNarratives c response = ([], Inr []))
   \<and> (status response \<notin> {200, 304, 404} \<longrightarrow>
      CoreSource_availableNarratives s response
        = ([''Error fetching available narratives from GitHub for source '' @ name s], Inr [])
    \<and> CommunitySource_availableDatasets g c response
        = ([''Error fetching available datasets from GitHub for source community''], Inr [])
    \<and> CommunitySource_availableNarratives c response
        = ([''Error fetching available narratives from GitHub for source community''], Inr []))"
  by (simp add: CoreSource_availableNarratives_def CommunitySource_availableDatasets_def
        CommunitySource_availableNarratives_def)

theorem github_listing_failure_policy_witness:
  "CoreSource_availableNarratives CoreSource \<lparr>status = 404, json = []\<rparr> = ([], Inl NotFound)
   \<and> CommunitySource_availableDatasets id community_test \<lparr>status = 404, json = []\<rparr>
       = ([], Inl NotFound)
   \<and> CommunitySource_availableDatasets id community_test \<lparr>status = 500, json = []\<rparr>
       = ([''Error fetching available datasets from GitHub for source community''], Inr [])
   \<and> CommunitySource_availableNarratives community_test \<lparr>status = 500, json = []\<rparr>
       = ([''Error fetching available narratives from GitHub for source community''], Inr [])"
  using github_listing_failure_policy [of "\<lparr>status = 404, json = []\<rparr>" CoreSource id community_test]
        github_listing_failure_policy [of "\<lparr>status = 500, json = []\<rparr>" CoreSource id community_test]
  by simp

text \<open>
  Claim C10. A dataset that \<^verbatim>\<open>resolve()\<close> returns has the source and the class of the
  dataset it was called on, and its \<^verbatim>\<open>pathParts\<close> are the original ones followed by
  the segments that alias completion appended.
\<close>

theorem resolve_extends_pathParts:
  "resolve c d = Inr r \<Longrightarrow>
     source r = source d \<and> cls r = cls d \<and> (\<exists>completion. pathParts r = pathParts d @ completion)"
  using resolve_extends [of c d r] by (auto simp: prefix_def)

theorem resolve_extends_pathParts_witness:
  "resolve flu_cache (core_dataset [''flu''])
     = Inr (core_dataset [''flu'', ''seasonal'', ''h3n2'', ''ha'', ''2y''])
   \<and> source (core_dataset [''flu'', ''seasonal'', ''h3n2'', ''ha'', ''2y''])
       = source (core_dataset [''flu''])
   \<and> (\<exists>completion. pathParts (core_dataset [''flu'', ''seasonal'', ''h3n2'', ''ha'', ''2y''])
         = pathParts (core_dataset [''flu'']) @ completion)"
proof -
  have r: "resolve flu_cache (core_dataset [''flu''])
             = Inr (core_dataset [''flu'', ''seasonal'', ''h3n2'', ''ha'', ''2y''])"
    by (simp add: resolve.simps resolve_step_def flu_cache_def core_dataset_def
          is_dataset_def Let_def new_Resource_def get_property_def)
  from resolve_extends_pathParts [OF r] r show ?thesis by simp
qed

end
